theory Spec2Isabelle
  imports Main "HOL-Library.Word"
begin

section \<open>The host runtime as seen from \<^verbatim>\<open>weave/scxx/object.h\<close>\<close>

text \<open>
  \<^verbatim>\<open>py::object\<close> is a two-pointer wrapper around \<^verbatim>\<open>PyObject*\<close>. The objects
  themselves live in the host runtime, which the header reaches through the macros
  \<^verbatim>\<open>Py_XINCREF\<close>/\<^verbatim>\<open>Py_XDECREF\<close>, the field \<^verbatim>\<open>ob_refcnt\<close>, the error indicator
  (\<^verbatim>\<open>PyErr_Occurred\<close>, \<^verbatim>\<open>PyErr_Clear\<close>, \<^verbatim>\<open>PyErr_ExceptionMatches\<close>) and a number
  of C-API functions.

  A \<^verbatim>\<open>PyObject*\<close> is an optional address: \<open>None\<close> is the null pointer.
\<close>

type_synonym addr = nat
type_synonym ptr = "addr option"

text \<open>Native scalar types (LP64): \<^verbatim>\<open>int\<close> and \<^verbatim>\<open>unsigned\<close> are 32 bits wide,
  \<^verbatim>\<open>long\<close> and \<^verbatim>\<open>unsigned long\<close> 64 bits. A \<^verbatim>\<open>double\<close> and a \<^verbatim>\<open>float\<close> are
  kept as their bit patterns; no arithmetic is done on them here.\<close>

type_synonym cint = "32 word"
type_synonym cuint = "32 word"
type_synonym clong = "64 word"
type_synonym culong = "64 word"
type_synonym cdouble = "64 word"
type_synonym cfloat = "32 word"

text \<open>Exception classes of the host. \<open>Derived e\<close> is a direct subclass of \<open>e\<close>.\<close>

datatype exc =
    KeyError | IndexError | TypeError | OverflowError | MemoryError
  | SystemError | UnicodeDecodeError | Derived exc

text \<open>The values objects can hold in the reference host used for concrete evaluation.\<close>

datatype pyval =
    PyLongV int
  | PyFloatV cdouble
  | PyComplexV cdouble cdouble
  | PyUnicodeV string
  | PyNoneV
  | PyListV "addr list"
  | PyDictV "(addr \<times> addr) list"

text \<open>
  Every change of a reference count is recorded with the count it leaves behind:
  \<open>Incref\<close> and \<open>Decref\<close> for the two macros, \<open>Lose\<close> for the bare
  \<^verbatim>\<open>--(o->ob_refcnt)\<close> of \<^verbatim>\<open>lose_ref\<close>.
\<close>

datatype event = Incref addr int | Decref addr int | Lose addr int

record runtime =
  refcnt :: "addr \<Rightarrow> int"
  freed :: "addr list"
  err :: "(exc \<times> string) option"
  trace :: "event list"
  heap :: "addr \<Rightarrow> pyval option"
  next_addr :: addr
  avail :: nat

text \<open>
  \<^verbatim>\<open>Py_XINCREF(p)\<close>: nothing for a null pointer, otherwise \<^verbatim>\<open>ob_refcnt++\<close>.
  \<^verbatim>\<open>Py_XDECREF(p)\<close>: nothing for a null pointer, otherwise \<^verbatim>\<open>--ob_refcnt\<close> and
  deallocation when the count reaches zero. Deallocation is recorded in \<open>freed\<close>;
  what the deallocator does to other objects is not modelled.
\<close>

definition Py_XINCREF :: "ptr \<Rightarrow> runtime \<Rightarrow> runtime" where
  "Py_XINCREF p s =
     (case p of
        None \<Rightarrow> s
      | Some a \<Rightarrow>
          s\<lparr>refcnt := (refcnt s)(a := refcnt s a + 1),
            trace := trace s @ [Incref a (refcnt s a + 1)]\<rparr>)"

definition Py_XDECREF :: "ptr \<Rightarrow> runtime \<Rightarrow> runtime" where
  "Py_XDECREF p s =
     (case p of
        None \<Rightarrow> s
      | Some a \<Rightarrow>
          s\<lparr>refcnt := (refcnt s)(a := refcnt s a - 1),
            freed := (if refcnt s a - 1 = 0 then freed s @ [a] else freed s),
            trace := trace s @ [Decref a (refcnt s a - 1)]\<rparr>)"

text \<open>The count an event leaves behind.\<close>

definition count_after :: "event \<Rightarrow> int" where
  "count_after e = (case e of Incref a n \<Rightarrow> n | Decref a n \<Rightarrow> n | Lose a n \<Rightarrow> n)"

section \<open>The handle\<close>

text \<open>
  \<^verbatim>\<open>PyObject* _obj\<close> is the referent, \<^verbatim>\<open>PyObject* _own\<close> is ``set to \<^verbatim>\<open>_obj\<close> if we
  own a reference to \<^verbatim>\<open>_obj\<close>, else zero''.
\<close>

record handle =
  obj :: ptr
  own :: ptr

definition handle_ok :: "handle \<Rightarrow> bool" where
  "handle_ok h = (own h = None \<or> own h = obj h)"

definition owning :: "handle \<Rightarrow> bool" where
  "owning h = (own h \<noteq> None)"

definition borrowing :: "handle \<Rightarrow> bool" where
  "borrowing h = (own h = None)"

text \<open>\<^verbatim>\<open>grab_ref\<close> (lines 45--50): incref the new referent, decref the old owner,
  then adjust both pointers.\<close>

definition grab_ref :: "handle \<Rightarrow> ptr \<Rightarrow> runtime \<Rightarrow> handle \<times> runtime" where
  "grab_ref h newObj s =
     (let s1 = Py_XINCREF newObj s;
          s2 = Py_XDECREF (own h) s1
      in (h\<lparr>own := newObj, obj := newObj\<rparr>, s2))"

text \<open>\<^verbatim>\<open>lose_ref\<close> (lines 57--58): decrease the count without destroying the object;
  the pointer is returned unchanged.\<close>

definition lose_ref :: "ptr \<Rightarrow> runtime \<Rightarrow> runtime" where
  "lose_ref p s =
     (case p of
        None \<Rightarrow> s
      | Some a \<Rightarrow>
          s\<lparr>refcnt := (refcnt s)(a := refcnt s a - 1),
            trace := trace s @ [Lose a (refcnt s a - 1)]\<rparr>)"

text \<open>The pointer constructors (lines 72--76). \<^verbatim>\<open>object(const object& other)\<close> passes
  \<^verbatim>\<open>other\<close> through \<^verbatim>\<open>operator PyObject*\<close>, which returns \<^verbatim>\<open>_obj\<close> (line 123).\<close>

definition object_nullptr :: handle where
  "object_nullptr = \<lparr>obj = None, own = None\<rparr>"

definition object_ptr :: "ptr \<Rightarrow> runtime \<Rightarrow> handle \<times> runtime" where
  "object_ptr p s = grab_ref \<lparr>obj = None, own = None\<rparr> p s"

definition object_copy :: "handle \<Rightarrow> runtime \<Rightarrow> handle \<times> runtime" where
  "object_copy other s = grab_ref \<lparr>obj = None, own = None\<rparr> (obj other) s"

text \<open>The destructor (lines 116--118).\<close>

definition destroy :: "handle \<Rightarrow> runtime \<Rightarrow> runtime" where
  "destroy h s = Py_XDECREF (own h) s"

text \<open>Copy assignment (lines 178--181). The updated left-hand side is returned.\<close>

definition assign :: "handle \<Rightarrow> handle \<Rightarrow> runtime \<Rightarrow> handle \<times> runtime" where
  "assign h other s = grab_ref h (obj other) s"

text \<open>\<^verbatim>\<open>is_null\<close> (lines 409--411), \<^verbatim>\<open>disown\<close> (lines 514--517): the raw pointer
  is returned together with the handle as it is left behind.\<close>

definition is_null :: "handle \<Rightarrow> bool" where
  "is_null h = (obj h = None)"

definition disown :: "handle \<Rightarrow> ptr \<times> handle" where
  "disown h = (obj h, h\<lparr>own := None\<rparr>)"

text \<open>
  Move operations. The class declares a copy constructor (line 73), a copy assignment
  operator (line 178) and a destructor (line 116), and no move constructor or move
  assignment operator. None is then implicitly declared, so initialising or assigning
  from an rvalue handle binds the rvalue to \<^verbatim>\<open>const object&\<close> and runs the copy
  operation. The source handle is returned as the operation leaves it.
\<close>

definition object_move :: "handle \<Rightarrow> runtime \<Rightarrow> handle \<times> handle \<times> runtime" where
  "object_move other s = (let (h, s1) = object_copy other s in (h, other, s1))"

definition assign_move :: "handle \<Rightarrow> handle \<Rightarrow> runtime \<Rightarrow> handle \<times> handle \<times> runtime" where
  "assign_move h other s = (let (h', s1) = assign h other s in (h', other, s1))"

section \<open>Failure, the error indicator and the bridge\<close>

text \<open>
  A member function returns, leaves by \<^verbatim>\<open>throw 1\<close>, or has undefined behaviour
  (a null pointer handed to a macro or constructor that dereferences it).
\<close>

datatype 'a outcome = Returned 'a | Thrown | Undefined

fun exc_matches :: "exc \<Rightarrow> exc \<Rightarrow> bool" where
  "exc_matches (Derived b) k = (Derived b = k \<or> exc_matches b k)"
| "exc_matches e k = (e = k)"

definition PyErr_Occurred :: "runtime \<Rightarrow> bool" where
  "PyErr_Occurred s = (err s \<noteq> None)"

definition PyErr_Clear :: "runtime \<Rightarrow> runtime" where
  "PyErr_Clear s = s\<lparr>err := None\<rparr>"

definition PyErr_SetString :: "exc \<Rightarrow> string \<Rightarrow> runtime \<Rightarrow> runtime" where
  "PyErr_SetString e msg s = s\<lparr>err := Some (e, msg)\<rparr>"

definition PyErr_ExceptionMatches :: "runtime \<Rightarrow> exc \<Rightarrow> bool" where
  "PyErr_ExceptionMatches s k =
     (case err s of None \<Rightarrow> False | Some (e, msg) \<Rightarrow> exc_matches e k)"

text \<open>
  Modelled from the spec: \<^verbatim>\<open>void fail(PyObject*, const char* msg)\<close> is only declared
  in the header (line 21); its body is elsewhere in the repository. The spec describes
  it as the failure-raising entry point taking an error-kind token and a message, which
  routes through the process-wide error state the bridge uses and unwinds.
\<close>

definition fail :: "exc \<Rightarrow> string \<Rightarrow> runtime \<Rightarrow> 'a outcome \<times> runtime" where
  "fail e msg s = (Thrown, PyErr_SetString e msg s)"

datatype cmpop = Py_LT | Py_LE | Py_EQ | Py_NE | Py_GT | Py_GE

text \<open>
  The C-API functions the header calls. They belong to the host, not to the
  repository, so the handle's operations take them as a parameter. A function returning
  \<^verbatim>\<open>PyObject*\<close> yields \<open>None\<close> for \<^verbatim>\<open>NULL\<close>; \<^verbatim>\<open>PyUnicode_AsUTF8\<close> yields the
  buffer it points to, or \<open>None\<close> for \<^verbatim>\<open>NULL\<close>. \<^verbatim>\<open>PyUnicode_Check\<close>,
  \<^verbatim>\<open>PyComplex_RealAsDouble\<close> and \<^verbatim>\<open>PyComplex_ImagAsDouble\<close> start by reading the
  type of their argument, so they take an address: handing them a null pointer is
  undefined behaviour of the caller.
\<close>

record bridge =
  PyLong_FromLong :: "clong \<Rightarrow> runtime \<Rightarrow> ptr \<times> runtime"
  PyLong_FromUnsignedLong :: "culong \<Rightarrow> runtime \<Rightarrow> ptr \<times> runtime"
  PyFloat_FromDouble :: "cdouble \<Rightarrow> runtime \<Rightarrow> ptr \<times> runtime"
  PyComplex_FromDoubles :: "cdouble \<Rightarrow> cdouble \<Rightarrow> runtime \<Rightarrow> ptr \<times> runtime"
  PyUnicode_FromString :: "string \<Rightarrow> runtime \<Rightarrow> ptr \<times> runtime"
  PyLong_AsLong :: "ptr \<Rightarrow> runtime \<Rightarrow> clong \<times> runtime"
  PyFloat_AsDouble :: "ptr \<Rightarrow> runtime \<Rightarrow> cdouble \<times> runtime"
  PyComplex_RealAsDouble :: "addr \<Rightarrow> runtime \<Rightarrow> cdouble \<times> runtime"
  PyComplex_ImagAsDouble :: "addr \<Rightarrow> runtime \<Rightarrow> cdouble \<times> runtime"
  PyUnicode_Check :: "addr \<Rightarrow> runtime \<Rightarrow> bool"
  PyUnicode_AsUTF8 :: "ptr \<Rightarrow> runtime \<Rightarrow> string option \<times> runtime"
  PyObject_GetItem :: "ptr \<Rightarrow> ptr \<Rightarrow> runtime \<Rightarrow> ptr \<times> runtime"
  PyObject_SetItem :: "ptr \<Rightarrow> ptr \<Rightarrow> ptr \<Rightarrow> runtime \<Rightarrow> int \<times> runtime"
  PyObject_RichCompareBool :: "ptr \<Rightarrow> ptr \<Rightarrow> cmpop \<Rightarrow> runtime \<Rightarrow> int \<times> runtime"

section \<open>Conversions between \<^verbatim>\<open>float\<close> and \<^verbatim>\<open>double\<close>\<close>















section \<open>Constructors from native values\<close>

text \<open>
  A \<^verbatim>\<open>const char*\<close> and the result of \<^verbatim>\<open>std::string::c_str()\<close> are read as C
  strings: the bytes before the first NUL. \<^verbatim>\<open>std::string(const char*)\<close> reads its
  argument the same way.
\<close>

definition c_str :: "string \<Rightarrow> string" where
  "c_str b = takeWhile (\<lambda>c. c \<noteq> CHR 0x00) b"

text \<open>Lines 81--111. \<^verbatim>\<open>(int)val\<close> of a \<^verbatim>\<open>bool\<close> is 0 or 1; an \<^verbatim>\<open>int\<close> argument of
  \<^verbatim>\<open>PyLong_FromLong\<close> is sign-extended to \<^verbatim>\<open>long\<close>, an \<^verbatim>\<open>unsigned\<close> argument of
  \<^verbatim>\<open>PyLong_FromUnsignedLong\<close> zero-extended.\<close>

definition object_bool :: "bridge \<Rightarrow> bool \<Rightarrow> runtime \<Rightarrow> handle \<times> runtime" where
  "object_bool B val s =
     (let (p, s1) = PyLong_FromLong B (if val then 1 else 0) s in (\<lparr>obj = p, own = p\<rparr>, s1))"

definition object_int :: "bridge \<Rightarrow> cint \<Rightarrow> runtime \<Rightarrow> handle \<times> runtime" where
  "object_int B val s =
     (let (p, s1) = PyLong_FromLong B (scast val) s in (\<lparr>obj = p, own = p\<rparr>, s1))"

definition object_uint :: "bridge \<Rightarrow> cuint \<Rightarrow> runtime \<Rightarrow> handle \<times> runtime" where
  "object_uint B val s =
     (let (p, s1) = PyLong_FromUnsignedLong B (ucast val) s in (\<lparr>obj = p, own = p\<rparr>, s1))"

definition object_long :: "bridge \<Rightarrow> clong \<Rightarrow> runtime \<Rightarrow> handle \<times> runtime" where
  "object_long B val s =
     (let (p, s1) = PyLong_FromLong B val s in (\<lparr>obj = p, own = p\<rparr>, s1))"

definition object_ulong :: "bridge \<Rightarrow> culong \<Rightarrow> runtime \<Rightarrow> handle \<times> runtime" where
  "object_ulong B val s =
     (let (p, s1) = PyLong_FromUnsignedLong B val s in (\<lparr>obj = p, own = p\<rparr>, s1))"

definition object_double :: "bridge \<Rightarrow> cdouble \<Rightarrow> runtime \<Rightarrow> handle \<times> runtime" where
  "object_double B val s =
     (let (p, s1) = PyFloat_FromDouble B val s in (\<lparr>obj = p, own = p\<rparr>, s1))"


definition object_complex :: "bridge \<Rightarrow> cdouble \<Rightarrow> cdouble \<Rightarrow> runtime \<Rightarrow> handle \<times> runtime" where
  "object_complex B re im s =
     (let (p, s1) = PyComplex_FromDoubles B re im s in (\<lparr>obj = p, own = p\<rparr>, s1))"

definition object_cstr :: "bridge \<Rightarrow> string \<Rightarrow> runtime \<Rightarrow> handle \<times> runtime" where
  "object_cstr B val s =
     (let (p, s1) = PyUnicode_FromString B (c_str val) s in (\<lparr>obj = p, own = p\<rparr>, s1))"

definition object_string :: "bridge \<Rightarrow> string \<Rightarrow> runtime \<Rightarrow> handle \<times> runtime" where
  "object_string B val s =
     (let (p, s1) = PyUnicode_FromString B (c_str val) s in (\<lparr>obj = p, own = p\<rparr>, s1))"

text \<open>The argument types a template parameter \<^verbatim>\<open>T\<close> can take in \<^verbatim>\<open>object o(other)\<close>
  and \<^verbatim>\<open>object k(key)\<close>, and the constructor overload resolution selects. A \<^verbatim>\<open>float\<close>
  has no constructor of its own: it is promoted to \<^verbatim>\<open>double\<close> by the caller.\<close>

datatype native =
    NNullptr | NObject handle | NPtr ptr
  | NBool bool | NInt cint | NUInt cuint | NLong clong | NULong culong
  | NDouble cdouble | NComplex cdouble cdouble
  | NCStr string | NString string

fun construct :: "bridge \<Rightarrow> native \<Rightarrow> runtime \<Rightarrow> handle \<times> runtime" where
  "construct B NNullptr s = (object_nullptr, s)"
| "construct B (NObject h) s = object_copy h s"
| "construct B (NPtr p) s = object_ptr p s"
| "construct B (NBool v) s = object_bool B v s"
| "construct B (NInt v) s = object_int B v s"
| "construct B (NUInt v) s = object_uint B v s"
| "construct B (NLong v) s = object_long B v s"
| "construct B (NULong v) s = object_ulong B v s"
| "construct B (NDouble v) s = object_double B v s"
| "construct B (NComplex re im) s = object_complex B re im s"
| "construct B (NCStr v) s = object_cstr B v s"
| "construct B (NString v) s = object_string B v s"

section \<open>Casting operators\<close>

text \<open>Lines 127--173. \<^verbatim>\<open>int _val = PyLong_AsLong(_obj)\<close> keeps the low 32 bits of the
  \<^verbatim>\<open>long\<close>. The narrowing \<^verbatim>\<open>(float)\<close> of a \<^verbatim>\<open>double\<close> is a parameter; the
  language's conversion is \<open>double_to_float\<close>.\<close>

definition operator_int :: "bridge \<Rightarrow> handle \<Rightarrow> runtime \<Rightarrow> cint outcome \<times> runtime" where
  "operator_int B h s =
     (let (v, s1) = PyLong_AsLong B (obj h) s
      in if PyErr_Occurred s1
         then fail TypeError ''cannot convert value to integer'' (PyErr_Clear s1)
         else (Returned (ucast v), s1))"

definition operator_float ::
  "(cdouble \<Rightarrow> cfloat) \<Rightarrow> bridge \<Rightarrow> handle \<Rightarrow> runtime \<Rightarrow> cfloat outcome \<times> runtime" where
  "operator_float narrow B h s =
     (let (v, s1) = PyFloat_AsDouble B (obj h) s
      in if PyErr_Occurred s1
         then fail TypeError ''cannot convert value to float'' (PyErr_Clear s1)
         else (Returned (narrow v), s1))"

definition operator_double :: "bridge \<Rightarrow> handle \<Rightarrow> runtime \<Rightarrow> cdouble outcome \<times> runtime" where
  "operator_double B h s =
     (let (v, s1) = PyFloat_AsDouble B (obj h) s
      in if PyErr_Occurred s1
         then fail TypeError ''cannot convert value to double'' (PyErr_Clear s1)
         else (Returned v, s1))"

definition operator_complex ::
  "bridge \<Rightarrow> handle \<Rightarrow> runtime \<Rightarrow> (cdouble \<times> cdouble) outcome \<times> runtime" where
  "operator_complex B h s =
     (case obj h of
        None \<Rightarrow> (Undefined, s)
      | Some a \<Rightarrow>
          (let (re, s1) = PyComplex_RealAsDouble B a s;
               (im, s2) = PyComplex_ImagAsDouble B a s1
           in if PyErr_Occurred s2
              then fail TypeError ''cannot convert value to complex'' (PyErr_Clear s2)
              else (Returned (re, im), s2)))"

text \<open>\<^verbatim>\<open>std::string(const char*)\<close> reads the buffer its argument points to: a null
  pointer there is undefined behaviour.\<close>

definition operator_string :: "bridge \<Rightarrow> handle \<Rightarrow> runtime \<Rightarrow> string outcome \<times> runtime" where
  "operator_string B h s =
     (case obj h of
        None \<Rightarrow> (Undefined, s)
      | Some a \<Rightarrow>
          if \<not> PyUnicode_Check B a s
          then fail TypeError ''cannot convert value to std::string'' s
          else (let (c, s1) = PyUnicode_AsUTF8 B (obj h) s
                in case c of None \<Rightarrow> (Undefined, s1) | Some b \<Rightarrow> (Returned (c_str b), s1)))"

definition operator_cstr ::
  "bridge \<Rightarrow> handle \<Rightarrow> runtime \<Rightarrow> string option outcome \<times> runtime" where
  "operator_cstr B h s =
     (case obj h of
        None \<Rightarrow> (Undefined, s)
      | Some a \<Rightarrow>
          if \<not> PyUnicode_Check B a s
          then fail TypeError ''cannot convert value to const char*'' s
          else (let (c, s1) = PyUnicode_AsUTF8 B (obj h) s
                in (Returned (map_option c_str c), s1)))"

section \<open>Comparison\<close>

text \<open>Lines 286--297. The right operand of a comparison operator reaches
  \<^verbatim>\<open>PyObject_RichCompareBool\<close> through \<^verbatim>\<open>operator PyObject*\<close>; the \<^verbatim>\<open>int\<close> that comes
  back is converted to \<^verbatim>\<open>bool\<close>, which is true for every value but 0.\<close>

definition operator_eq :: "bridge \<Rightarrow> handle \<Rightarrow> handle \<Rightarrow> runtime \<Rightarrow> bool outcome \<times> runtime" where
  "operator_eq B h other s =
     (let (r, s1) = PyObject_RichCompareBool B (obj h) (obj other) Py_EQ s
      in (Returned (r \<noteq> 0), s1))"

definition operator_ne :: "bridge \<Rightarrow> handle \<Rightarrow> handle \<Rightarrow> runtime \<Rightarrow> bool outcome \<times> runtime" where
  "operator_ne B h other s =
     (let (r, s1) = PyObject_RichCompareBool B (obj h) (obj other) Py_NE s
      in (Returned (r \<noteq> 0), s1))"

definition operator_lt :: "bridge \<Rightarrow> handle \<Rightarrow> handle \<Rightarrow> runtime \<Rightarrow> bool outcome \<times> runtime" where
  "operator_lt B h other s =
     (let (r, s1) = PyObject_RichCompareBool B (obj h) (obj other) Py_LT s
      in (Returned (r \<noteq> 0), s1))"

definition operator_gt :: "bridge \<Rightarrow> handle \<Rightarrow> handle \<Rightarrow> runtime \<Rightarrow> bool outcome \<times> runtime" where
  "operator_gt B h other s =
     (let (r, s1) = PyObject_RichCompareBool B (obj h) (obj other) Py_GT s
      in (Returned (r \<noteq> 0), s1))"

definition operator_le :: "bridge \<Rightarrow> handle \<Rightarrow> handle \<Rightarrow> runtime \<Rightarrow> bool outcome \<times> runtime" where
  "operator_le B h other s =
     (let (r, s1) = PyObject_RichCompareBool B (obj h) (obj other) Py_LE s
      in (Returned (r \<noteq> 0), s1))"

definition operator_ge :: "bridge \<Rightarrow> handle \<Rightarrow> handle \<Rightarrow> runtime \<Rightarrow> bool outcome \<times> runtime" where
  "operator_ge B h other s =
     (let (r, s1) = PyObject_RichCompareBool B (obj h) (obj other) Py_GE s
      in (Returned (r \<noteq> 0), s1))"

text \<open>\<^verbatim>\<open>cmp\<close> (lines 286--290), from its parameter \<^verbatim>\<open>other\<close> on. The two calls are
  the operands of one subtraction, which the language leaves unsequenced; they are
  taken left to right here, and the value \<open>g - l\<close> is the same in the other order
  whenever the two answers do not depend on the order. The local \<^verbatim>\<open>o\<close> (here
  \<open>ob\<close>) is destroyed on return. The parameter is passed by value: when the argument
  is an \<^verbatim>\<open>object\<close>, the caller copies it into the parameter before the call and
  destroys that copy after it, one increment and one decrement of the argument's
  referent around what is defined here.\<close>

definition cmp :: "bridge \<Rightarrow> handle \<Rightarrow> native \<Rightarrow> runtime \<Rightarrow> int outcome \<times> runtime" where
  "cmp B h other s =
     (let (ob, s1) = construct B other s;
          (g, s2) = PyObject_RichCompareBool B (obj h) (obj ob) Py_GT s1;
          (l, s3) = PyObject_RichCompareBool B (obj h) (obj ob) Py_LT s2
      in (Returned (g - l), destroy ob s3))"

section \<open>Item access and the keyed reference\<close>

text \<open>\<^verbatim>\<open>set_item\<close> (lines 489--493), as \<^verbatim>\<open>object\<close> defines it.\<close>

definition set_item ::
  "bridge \<Rightarrow> handle \<Rightarrow> handle \<Rightarrow> handle \<Rightarrow> runtime \<Rightarrow> unit outcome \<times> runtime" where
  "set_item B h key val s =
     (let (rslt, s1) = PyObject_SetItem B (obj h) (obj key) (obj val) s
      in if rslt = - 1 then (Thrown, s1) else (Returned (), s1))"

text \<open>
  \<^verbatim>\<open>keyed_ref\<close> (lines 537--556): the base handle, the parent and a copy of the key.
  \<^verbatim>\<open>_parent\<close> is a C++ reference; the record holds the parent handle it refers to.
  The constructor copies its first argument into the base and the key into
  \<^verbatim>\<open>_key\<close>; the destructor releases \<^verbatim>\<open>_key\<close> and then the base. The class
  declares no copy constructor: the implicit one copies the base with
  \<^verbatim>\<open>object(const object&)\<close>, binds \<^verbatim>\<open>_parent\<close> to the same parent and copies
  \<^verbatim>\<open>_key\<close> the same way.
\<close>

record keyed_ref =
  kr_base :: handle
  kr_parent :: handle
  kr_key :: handle

definition keyed_ref_new ::
  "handle \<Rightarrow> handle \<Rightarrow> handle \<Rightarrow> runtime \<Rightarrow> keyed_ref \<times> runtime" where
  "keyed_ref_new ob parent key s =
     (let (b, s1) = object_copy ob s;
          (k, s2) = object_copy key s1
      in (\<lparr>kr_base = b, kr_parent = parent, kr_key = k\<rparr>, s2))"

definition keyed_ref_destroy :: "keyed_ref \<Rightarrow> runtime \<Rightarrow> runtime" where
  "keyed_ref_destroy r s = destroy (kr_base r) (destroy (kr_key r) s)"

definition keyed_ref_copy :: "keyed_ref \<Rightarrow> runtime \<Rightarrow> keyed_ref \<times> runtime" where
  "keyed_ref_copy r s =
     (let (b, s1) = object_copy (kr_base r) s;
          (k, s2) = object_copy (kr_key r) s1
      in (\<lparr>kr_base = b, kr_parent = kr_parent r, kr_key = k\<rparr>, s2))"

text \<open>\<^verbatim>\<open>keyed_ref::operator=(const object& other)\<close> (lines 546--550). The reference is
  returned as the call leaves it, also when \<^verbatim>\<open>set_item\<close> throws.\<close>

definition keyed_ref_assign ::
  "bridge \<Rightarrow> keyed_ref \<Rightarrow> handle \<Rightarrow> runtime \<Rightarrow> unit outcome \<times> keyed_ref \<times> runtime" where
  "keyed_ref_assign B r other s =
     (let (b, s1) = grab_ref (kr_base r) (obj other) s;
          r' = r\<lparr>kr_base := b\<rparr>;
          (res, s2) = set_item B (kr_parent r') (kr_key r') other s1
      in (res, r', s2))"

text \<open>Assigning a native value: the converting constructor builds a temporary
  \<^verbatim>\<open>object\<close>, which is bound to \<^verbatim>\<open>other\<close> and destroyed afterwards, on both paths.
  An \<^verbatim>\<open>object\<close> on the right-hand side is bound to \<^verbatim>\<open>other\<close> directly, with no
  temporary: that assignment is \<open>keyed_ref_assign\<close>. At \<open>NObject h\<close> the definition
  below makes a copy and destroys it, which is what \<^verbatim>\<open>operator=(const keyed_ref&)\<close>
  does with its local \<^verbatim>\<open>oth\<close>.\<close>

definition keyed_ref_assign_value ::
  "bridge \<Rightarrow> keyed_ref \<Rightarrow> native \<Rightarrow> runtime \<Rightarrow> unit outcome \<times> keyed_ref \<times> runtime" where
  "keyed_ref_assign_value B r v s =
     (let (tmp, s1) = construct B v s;
          (res, r', s2) = keyed_ref_assign B r tmp s1
      in (res, r', destroy tmp s2))"

text \<open>\<^verbatim>\<open>keyed_ref::operator=(const keyed_ref& other)\<close> (lines 552--555).\<close>

definition keyed_ref_assign_ref ::
  "bridge \<Rightarrow> keyed_ref \<Rightarrow> keyed_ref \<Rightarrow> runtime \<Rightarrow> unit outcome \<times> keyed_ref \<times> runtime" where
  "keyed_ref_assign_ref B r other s =
     (let (oth, s1) = object_copy (kr_base other) s;
          (res, r', s2) = keyed_ref_assign B r oth s1
      in (res, r', destroy oth s2))"

text \<open>
  \<^verbatim>\<open>operator[]\<close> (lines 558--576). \<open>index_return\<close> is the \<^verbatim>\<open>return\<close> statement: the
  by-value argument of the \<^verbatim>\<open>keyed_ref\<close> constructor is a copy of \<^verbatim>\<open>rslt\<close>, destroyed
  after the construction, and then the locals \<^verbatim>\<open>rslt\<close> and \<^verbatim>\<open>k\<close> go out of scope.
  On \<^verbatim>\<open>throw 1\<close> the two locals are destroyed by the unwinding.
  The function is defined from its parameter \<^verbatim>\<open>key\<close> on: the parameter is passed by
  value, so when the argument is an \<^verbatim>\<open>object\<close> the caller copies it into the
  parameter before the call and destroys that copy after it.
\<close>

definition index_return ::
  "handle \<Rightarrow> handle \<Rightarrow> handle \<Rightarrow> runtime \<Rightarrow> keyed_ref outcome \<times> runtime" where
  "index_return h k rslt s =
     (let (arg, s1) = object_copy rslt s;
          (r, s2) = keyed_ref_new arg h k s1;
          s3 = destroy arg s2;
          s4 = destroy rslt s3;
          s5 = destroy k s4
      in (Returned r, s5))"

definition operator_index ::
  "bridge \<Rightarrow> handle \<Rightarrow> native \<Rightarrow> runtime \<Rightarrow> keyed_ref outcome \<times> runtime" where
  "operator_index B h key s =
     (let (k, s1) = construct B key s;
          (p, s2) = PyObject_GetItem B (obj h) (obj k) s1;
          (rslt, s3) = object_ptr p s2;
          s4 = lose_ref (obj rslt) s3
      in if obj rslt = None
         then (if PyErr_ExceptionMatches s4 KeyError
               then index_return h k rslt (PyErr_Clear s4)
               else if PyErr_ExceptionMatches s4 IndexError
               then (Thrown, destroy k (destroy rslt s4))
               else index_return h k rslt s4)
         else index_return h k rslt s4)"

section \<open>A reference host\<close>

text \<open>
  One instance of the bridge, over the object values of \<open>pyval\<close>, following the
  documented behaviour of the C-API functions on integers, floats, complex numbers,
  text, lists and dictionaries. It gives the constructors and the casts a common
  meaning and is what the concrete examples run on. Two things are left open as
  parameters: which byte strings the UTF-8 decoder accepts (\<open>dec\<close>), and the
  conversion of an integer to a double (\<open>itod\<close>, \<open>None\<close> when it overflows).
  A new object is allocated at \<open>next_addr\<close> with count 1 (the cache of small integers
  is not modelled: every constructor call yields an object of its own); allocation
  fails with \<open>MemoryError\<close> once \<open>avail\<close> is used up.
\<close>

text \<open>The bits of the double \<open>-1.0\<close>, which the float queries return on failure.\<close>

definition minus_one :: cdouble where
  "minus_one = 0xBFF0000000000000"

text \<open>\<^verbatim>\<open>null_error\<close> of the abstract object layer: \<open>SystemError\<close>, unless an error
  is pending already.\<close>

definition null_error :: "runtime \<Rightarrow> runtime" where
  "null_error s =
     (if PyErr_Occurred s then s
      else PyErr_SetString SystemError ''null argument to internal routine'' s)"

definition host_alloc :: "pyval \<Rightarrow> runtime \<Rightarrow> ptr \<times> runtime" where
  "host_alloc v s =
     (if avail s = 0 then (None, PyErr_SetString MemoryError [] s)
      else (Some (next_addr s),
            s\<lparr>refcnt := (refcnt s)(next_addr s := 1),
              heap := (heap s)(next_addr s := Some v),
              next_addr := next_addr s + 1,
              avail := avail s - 1\<rparr>))"

definition host_FromLong :: "clong \<Rightarrow> runtime \<Rightarrow> ptr \<times> runtime" where
  "host_FromLong v s = host_alloc (PyLongV (sint v)) s"

definition host_FromUnsignedLong :: "culong \<Rightarrow> runtime \<Rightarrow> ptr \<times> runtime" where
  "host_FromUnsignedLong v s = host_alloc (PyLongV (uint v)) s"

definition host_FromDouble :: "cdouble \<Rightarrow> runtime \<Rightarrow> ptr \<times> runtime" where
  "host_FromDouble v s = host_alloc (PyFloatV v) s"

definition host_FromDoubles :: "cdouble \<Rightarrow> cdouble \<Rightarrow> runtime \<Rightarrow> ptr \<times> runtime" where
  "host_FromDoubles re im s = host_alloc (PyComplexV re im) s"

definition host_FromString :: "(string \<Rightarrow> bool) \<Rightarrow> string \<Rightarrow> runtime \<Rightarrow> ptr \<times> runtime" where
  "host_FromString dec b s =
     (if dec b then host_alloc (PyUnicodeV b) s
      else (None, PyErr_SetString UnicodeDecodeError [] s))"

definition host_AsLong :: "ptr \<Rightarrow> runtime \<Rightarrow> clong \<times> runtime" where
  "host_AsLong p s =
     (case p of
        None \<Rightarrow> (- 1, PyErr_SetString SystemError ''bad argument to internal function'' s)
      | Some a \<Rightarrow>
          (case heap s a of
             Some (PyLongV n) \<Rightarrow>
               if - (2 ^ 63) \<le> n \<and> n < 2 ^ 63 then (word_of_int n, s)
               else (- 1, PyErr_SetString OverflowError
                            ''Python int too large to convert to C long'' s)
           | _ \<Rightarrow> (- 1, PyErr_SetString TypeError ''an integer is required'' s)))"

definition host_AsDouble :: "(int \<Rightarrow> cdouble option) \<Rightarrow> ptr \<Rightarrow> runtime \<Rightarrow> cdouble \<times> runtime" where
  "host_AsDouble itod p s =
     (case p of
        None \<Rightarrow>
          (minus_one, PyErr_SetString TypeError ''bad argument type for built-in operation'' s)
      | Some a \<Rightarrow>
          (case heap s a of
             Some (PyFloatV d) \<Rightarrow> (d, s)
           | Some (PyLongV n) \<Rightarrow>
               (case itod n of
                  Some d \<Rightarrow> (d, s)
                | None \<Rightarrow> (minus_one, PyErr_SetString OverflowError
                                        ''int too large to convert to float'' s))
           | _ \<Rightarrow> (minus_one, PyErr_SetString TypeError ''must be real number'' s)))"

definition host_RealAsDouble ::
  "(int \<Rightarrow> cdouble option) \<Rightarrow> addr \<Rightarrow> runtime \<Rightarrow> cdouble \<times> runtime" where
  "host_RealAsDouble itod a s =
     (case heap s a of
        Some (PyComplexV re im) \<Rightarrow> (re, s)
      | _ \<Rightarrow> host_AsDouble itod (Some a) s)"

definition host_ImagAsDouble :: "addr \<Rightarrow> runtime \<Rightarrow> cdouble \<times> runtime" where
  "host_ImagAsDouble a s =
     (case heap s a of
        Some (PyComplexV re im) \<Rightarrow> (im, s)
      | _ \<Rightarrow> (0, s))"

definition host_Unicode_Check :: "addr \<Rightarrow> runtime \<Rightarrow> bool" where
  "host_Unicode_Check a s = (case heap s a of Some (PyUnicodeV b) \<Rightarrow> True | _ \<Rightarrow> False)"

definition host_AsUTF8 :: "ptr \<Rightarrow> runtime \<Rightarrow> string option \<times> runtime" where
  "host_AsUTF8 p s =
     (case p of
        None \<Rightarrow> (None, PyErr_SetString SystemError ''bad argument to internal function'' s)
      | Some a \<Rightarrow>
          (case heap s a of
             Some (PyUnicodeV b) \<Rightarrow> (Some b, s)
           | _ \<Rightarrow> (None, PyErr_SetString TypeError ''bad argument type for built-in operation'' s)))"

definition host_hashable :: "runtime \<Rightarrow> addr \<Rightarrow> bool" where
  "host_hashable s k =
     (case heap s k of Some (PyListV xs) \<Rightarrow> False | Some (PyDictV kvs) \<Rightarrow> False | _ \<Rightarrow> True)"

definition host_GetItem :: "ptr \<Rightarrow> ptr \<Rightarrow> runtime \<Rightarrow> ptr \<times> runtime" where
  "host_GetItem c k s =
     (case (c, k) of
        (Some ca, Some ka) \<Rightarrow>
          (case heap s ca of
             Some (PyDictV kvs) \<Rightarrow>
               if \<not> host_hashable s ka
               then (None, PyErr_SetString TypeError ''unhashable type'' s)
               else (case find (\<lambda>(k', v). heap s k' = heap s ka) kvs of
                       Some (k', v) \<Rightarrow> (Some v, Py_XINCREF (Some v) s)
                     | None \<Rightarrow> (None, PyErr_SetString KeyError [] s))
           | Some (PyListV xs) \<Rightarrow>
               (case heap s ka of
                  Some (PyLongV i) \<Rightarrow>
                    (let j = (if i < 0 then i + int (length xs) else i)
                     in if 0 \<le> j \<and> j < int (length xs)
                        then (Some (xs ! nat j), Py_XINCREF (Some (xs ! nat j)) s)
                        else (None, PyErr_SetString IndexError ''list index out of range'' s))
                | _ \<Rightarrow> (None, PyErr_SetString TypeError ''list indices must be integers'' s))
           | _ \<Rightarrow> (None, PyErr_SetString TypeError ''object is not subscriptable'' s))
      | _ \<Rightarrow> (None, null_error s))"

definition host_SetItem :: "ptr \<Rightarrow> ptr \<Rightarrow> ptr \<Rightarrow> runtime \<Rightarrow> int \<times> runtime" where
  "host_SetItem c k v s =
     (case (c, k, v) of
        (Some ca, Some ka, Some va) \<Rightarrow>
          (case heap s ca of
             Some (PyDictV kvs) \<Rightarrow>
               if \<not> host_hashable s ka
               then (- 1, PyErr_SetString TypeError ''unhashable type'' s)
               else (case find (\<lambda>(k', v'). heap s k' = heap s ka) kvs of
                       Some (k', v') \<Rightarrow>
                         (0, Py_XDECREF (Some v')
                               ((Py_XINCREF (Some va) s)
                                  \<lparr>heap := (heap s)(ca := Some (PyDictV
                                      (map (\<lambda>(k'', v''). if k'' = k' then (k'', va) else (k'', v''))
                                         kvs)))\<rparr>))
                     | None \<Rightarrow>
                         (0, (Py_XINCREF (Some va) (Py_XINCREF (Some ka) s))
                               \<lparr>heap := (heap s)(ca := Some (PyDictV (kvs @ [(ka, va)])))\<rparr>))
           | Some (PyListV xs) \<Rightarrow>
               (case heap s ka of
                  Some (PyLongV i) \<Rightarrow>
                    (let j = (if i < 0 then i + int (length xs) else i)
                     in if 0 \<le> j \<and> j < int (length xs)
                        then (0, Py_XDECREF (Some (xs ! nat j))
                                   ((Py_XINCREF (Some va) s)
                                      \<lparr>heap := (heap s)(ca := Some (PyListV (xs[nat j := va])))\<rparr>))
                        else (- 1, PyErr_SetString IndexError
                                     ''list assignment index out of range'' s))
                | _ \<Rightarrow> (- 1, PyErr_SetString TypeError ''list indices must be integers'' s))
           | _ \<Rightarrow> (- 1, PyErr_SetString TypeError
                          ''object does not support item assignment'' s))
      | _ \<Rightarrow> (- 1, null_error s))"

text \<open>Integers are ordered among themselves. Any other pair of objects is equal when
  it is the same object and has no order: an ordering comparison raises \<open>TypeError\<close>.
  Two equal pointers are equal without a look at the objects, null pointers included.\<close>

fun int_compare :: "cmpop \<Rightarrow> int \<Rightarrow> int \<Rightarrow> bool" where
  "int_compare Py_LT x y = (x < y)"
| "int_compare Py_LE x y = (x \<le> y)"
| "int_compare Py_EQ x y = (x = y)"
| "int_compare Py_NE x y = (x \<noteq> y)"
| "int_compare Py_GT x y = (x > y)"
| "int_compare Py_GE x y = (x \<ge> y)"

definition host_RichCompareBool :: "ptr \<Rightarrow> ptr \<Rightarrow> cmpop \<Rightarrow> runtime \<Rightarrow> int \<times> runtime" where
  "host_RichCompareBool p q opr s =
     (case (p, q) of
        (Some a, Some b) \<Rightarrow>
          (case (heap s a, heap s b) of
             (Some (PyLongV x), Some (PyLongV y)) \<Rightarrow> (if int_compare opr x y then 1 else 0, s)
           | _ \<Rightarrow>
               (case opr of
                  Py_EQ \<Rightarrow> (if a = b then 1 else 0, s)
                | Py_NE \<Rightarrow> (if a = b then 0 else 1, s)
                | _ \<Rightarrow> (- 1, PyErr_SetString TypeError ''not supported between instances'' s)))
      | _ \<Rightarrow>
          if p = q \<and> opr = Py_EQ then (1, s)
          else if p = q \<and> opr = Py_NE then (0, s)
          else (- 1, if PyErr_Occurred s then s
                     else PyErr_SetString SystemError ''bad argument to internal function'' s))"

definition host :: "(string \<Rightarrow> bool) \<Rightarrow> (int \<Rightarrow> cdouble option) \<Rightarrow> bridge" where
  "host dec itod =
     \<lparr>PyLong_FromLong = host_FromLong,
      PyLong_FromUnsignedLong = host_FromUnsignedLong,
      PyFloat_FromDouble = host_FromDouble,
      PyComplex_FromDoubles = host_FromDoubles,
      PyUnicode_FromString = host_FromString dec,
      PyLong_AsLong = host_AsLong,
      PyFloat_AsDouble = host_AsDouble itod,
      PyComplex_RealAsDouble = host_RealAsDouble itod,
      PyComplex_ImagAsDouble = host_ImagAsDouble,
      PyUnicode_Check = host_Unicode_Check,
      PyUnicode_AsUTF8 = host_AsUTF8,
      PyObject_GetItem = host_GetItem,
      PyObject_SetItem = host_SetItem,
      PyObject_RichCompareBool = host_RichCompareBool\<rparr>"

section \<open>Concrete inputs\<close>

text \<open>A decoder that accepts exactly the 7-bit strings, and a host built on it; no
  example converts an integer to a double.\<close>

definition ascii_only :: "string \<Rightarrow> bool" where
  "ascii_only b = list_all (\<lambda>c. (of_char c :: nat) < 128) b"

definition host0 :: bridge where
  "host0 = host ascii_only (\<lambda>n. None)"

text \<open>A runtime with seven live objects, each with count 1, and nothing pending:
  the integers 2, 1 and 7, the text \<open>a\<close>, an empty dictionary, the list \<open>[2, 1]\<close> and
  \<open>None\<close>.\<close>

definition rt0 :: runtime where
  "rt0 = \<lparr>refcnt = (\<lambda>_. 1), freed = [], err = None, trace = [],
          heap = [0 \<mapsto> PyLongV 2, 1 \<mapsto> PyLongV 1, 2 \<mapsto> PyUnicodeV ''a'',
                  3 \<mapsto> PyDictV [], 4 \<mapsto> PyListV [0, 1], 5 \<mapsto> PyNoneV, 6 \<mapsto> PyLongV 7],
          next_addr = 100, avail = 8\<rparr>"

text \<open>The owning handle on an object, and the handle \<^verbatim>\<open>disown\<close> leaves behind.\<close>

definition owner :: "addr \<Rightarrow> handle" where
  "owner a = \<lparr>obj = Some a, own = Some a\<rparr>"

definition borrower :: "addr \<Rightarrow> handle" where
  "borrower a = \<lparr>obj = Some a, own = None\<rparr>"

text \<open>Two keyed references on the dictionary at address 3: one with a null referent
  and the key at address 0, one that owns the object at address 1 under the key at
  address 2.\<close>

definition missing_ref :: keyed_ref where
  "missing_ref = \<lparr>kr_base = object_nullptr, kr_parent = owner 3, kr_key = owner 0\<rparr>"

definition present_ref :: keyed_ref where
  "present_ref = \<lparr>kr_base = owner 1, kr_parent = owner 3, kr_key = owner 2\<rparr>"

text \<open>A host whose objects answer every greater-than comparison with true and raise
  on every other comparison, and a \<^verbatim>\<open>std::string\<close> of three bytes with a NUL in the
  middle.\<close>

definition lopsided_host :: bridge where
  "lopsided_host =
     host0\<lparr>PyObject_RichCompareBool :=
       (\<lambda>p q opr s. if opr = Py_GT then (1, s)
                     else (- 1, PyErr_SetString TypeError ''not supported'' s))\<rparr>"


section \<open>Reference counting\<close>

lemma XINCREF_null: "Py_XINCREF None s = s"
  by (simp add: Py_XINCREF_def)

lemma XDECREF_null: "Py_XDECREF None s = s"
  by (simp add: Py_XDECREF_def)

lemma grab_ref_ok: "handle_ok (fst (grab_ref h p s))"
  by (simp add: grab_ref_def handle_ok_def Let_def)

lemma grab_ref_trace:
  "trace (snd (grab_ref h p s)) =
     trace s @ (case p of None \<Rightarrow> [] | Some b \<Rightarrow> [Incref b (refcnt s b + 1)])
             @ (case own h of None \<Rightarrow> []
                | Some c \<Rightarrow> [Decref c (refcnt (Py_XINCREF p s) c - 1)])"
  by (simp add: grab_ref_def Let_def Py_XINCREF_def Py_XDECREF_def split: option.splits)

subsection \<open>Destruction and copies\<close>

text \<open>
  C1, as the code has it. Destroying a handle that owns \<open>a\<close> issues exactly one
  decrement, of \<open>a\<close>; destroying a borrowing handle changes nothing. A copy of any
  handle followed by the destruction of that copy leaves every count as it was before
  the copy. When the original handle owns its referent and is destroyed as well, the
  count ends one below its value before the copy: the original's own reference is
  released, once, exactly as if it had been destroyed without the copy.
\<close>

theorem destroy_releases_own_reference:
  "(own h = Some a \<longrightarrow>
      trace (destroy h s) = trace s @ [Decref a (refcnt s a - 1)]
    \<and> refcnt (destroy h s) = (refcnt s)(a := refcnt s a - 1))
 \<and> (borrowing h \<longrightarrow> destroy h s = s)
 \<and> refcnt (destroy (fst (object_copy h s)) (snd (object_copy h s))) = refcnt s
 \<and> (owning h \<and> handle_ok h \<longrightarrow>
      refcnt (destroy h (destroy (fst (object_copy h s)) (snd (object_copy h s))))
        = refcnt (destroy h s))
 \<and> (own h = Some a \<and> obj h = Some a \<longrightarrow>
      refcnt (destroy h (destroy (fst (object_copy h s)) (snd (object_copy h s)))) a
        = refcnt s a - 1)"
  by (cases "obj h")
    (auto simp: destroy_def object_copy_def grab_ref_def Let_def Py_XINCREF_def Py_XDECREF_def
      borrowing_def owning_def handle_ok_def)

theorem destroy_releases_own_reference_witness:
  "trace (destroy (owner 0) rt0) = [Decref 0 0]
 \<and> refcnt (destroy (owner 0) rt0) 0 = 0
 \<and> destroy (borrower 0) rt0 = rt0
 \<and> refcnt (destroy (fst (object_copy (owner 0) rt0)) (snd (object_copy (owner 0) rt0))) 0 = 1
 \<and> refcnt (destroy (owner 0)
      (destroy (fst (object_copy (owner 0) rt0)) (snd (object_copy (owner 0) rt0)))) 0 = 0"
  using destroy_releases_own_reference [of "owner 0" 0 rt0]
    destroy_releases_own_reference [of "borrower 0" 0 rt0]
  by (simp add: owner_def borrower_def rt0_def borrowing_def owning_def handle_ok_def)

text \<open>The claim as written fails: an object with count 1 is owned by a handle; the
  handle is copied and both handles are destroyed. The count is then 0, not the 1 it
  was before the copy.\<close>

theorem copy_destroy_both_counterexample:
  "refcnt rt0 0 = 1
 \<and> refcnt (destroy (owner 0)
      (destroy (fst (object_copy (owner 0) rt0)) (snd (object_copy (owner 0) rt0)))) 0 = 0"
  by (simp add: owner_def rt0_def destroy_def object_copy_def grab_ref_def Let_def
      Py_XINCREF_def Py_XDECREF_def)

subsection \<open>Increment before decrement\<close>

text \<open>
  C2, as the code has it. Copy assignment and copy construction record the increment
  of the new referent before the decrement of the old owned referent. Self-assignment
  of a handle that owns \<open>a\<close> is one increment followed by one decrement: no count
  recorded on the way is below the starting count, the counts end unchanged, nothing
  is deallocated when the count was positive, and the handle is unchanged.
  Self-assignment of a borrowing handle on \<open>a\<close> is the increment alone: the count of
  \<open>a\<close> ends one higher and the handle has become an owner.
\<close>

theorem assign_increments_first:
  "trace (snd (assign h other s)) =
     trace s @ (case obj other of None \<Rightarrow> [] | Some b \<Rightarrow> [Incref b (refcnt s b + 1)])
             @ (case own h of None \<Rightarrow> []
                | Some c \<Rightarrow> [Decref c (refcnt (Py_XINCREF (obj other) s) c - 1)])
 \<and> trace (snd (object_copy other s)) =
     trace s @ (case obj other of None \<Rightarrow> [] | Some b \<Rightarrow> [Incref b (refcnt s b + 1)])
 \<and> (obj h = Some a \<and> own h = Some a \<longrightarrow>
      trace (snd (assign h h s)) = trace s @ [Incref a (refcnt s a + 1), Decref a (refcnt s a)]
    \<and> list_all (\<lambda>e. refcnt s a \<le> count_after e)
         (drop (length (trace s)) (trace (snd (assign h h s))))
    \<and> refcnt (snd (assign h h s)) = refcnt s
    \<and> (0 < refcnt s a \<longrightarrow> freed (snd (assign h h s)) = freed s)
    \<and> fst (assign h h s) = h)
 \<and> (obj h = Some a \<and> own h = None \<longrightarrow>
      trace (snd (assign h h s)) = trace s @ [Incref a (refcnt s a + 1)]
    \<and> refcnt (snd (assign h h s)) = (refcnt s)(a := refcnt s a + 1)
    \<and> freed (snd (assign h h s)) = freed s
    \<and> fst (assign h h s) = owner a)"
  by (auto simp: assign_def object_copy_def grab_ref_def Let_def Py_XINCREF_def
      Py_XDECREF_def count_after_def owner_def split: option.splits)

theorem assign_increments_first_witness:
  "trace (snd (assign (owner 0) (owner 0) rt0)) = [Incref 0 2, Decref 0 1]
 \<and> refcnt (snd (assign (owner 0) (owner 0) rt0)) = refcnt rt0
 \<and> freed (snd (assign (owner 0) (owner 0) rt0)) = []
 \<and> trace (snd (assign (borrower 0) (borrower 0) rt0)) = [Incref 0 2]
 \<and> fst (assign (borrower 0) (borrower 0) rt0) = owner 0"
  using assign_increments_first [of "owner 0" "owner 0" rt0 0]
    assign_increments_first [of "borrower 0" "borrower 0" rt0 0]
  by (simp add: owner_def borrower_def rt0_def Py_XINCREF_def)

text \<open>The claim as written fails for a borrowing handle, such as \<^verbatim>\<open>disown\<close> leaves
  behind: self-assignment takes the count of its referent from 1 to 2.\<close>

theorem self_assign_borrowing_counterexample:
  "refcnt rt0 0 = 1 \<and> refcnt (snd (assign (borrower 0) (borrower 0) rt0)) 0 = 2"
  by (simp add: borrower_def rt0_def assign_def grab_ref_def Let_def Py_XINCREF_def
      Py_XDECREF_def)

subsection \<open>Moves\<close>

text \<open>
  C9, as the code has it. Constructing or assigning from an rvalue handle that owns
  \<open>a\<close> runs the copy operation: the destination becomes an owner of \<open>a\<close> through one
  increment (an assignment also releases what the destination owned), and the source
  is left as it was, still owning. \<^verbatim>\<open>disown\<close> is what gives ownership up: it returns
  the raw pointer and leaves a borrowing handle, whose destruction changes nothing.
  A reference handed over by the bridge is adopted by \<^verbatim>\<open>object(lose_ref(p))\<close>: one
  bare decrement and one increment, after which the handle owns \<open>p\<close> and every count
  is what it was.
\<close>

theorem move_runs_copy:
  "(obj h = Some a \<and> own h = Some a \<longrightarrow>
      object_move h s = (owner a, h, Py_XINCREF (Some a) s)
    \<and> assign_move d h s = (owner a, h, Py_XDECREF (own d) (Py_XINCREF (Some a) s))
    \<and> disown h = (Some a, borrower a)
    \<and> destroy (snd (disown h)) s = s)
 \<and> fst (object_ptr p (lose_ref p s)) = \<lparr>obj = p, own = p\<rparr>
 \<and> refcnt (snd (object_ptr p (lose_ref p s))) = refcnt s"
  by (cases d)
    (auto simp: object_move_def assign_move_def disown_def object_copy_def object_ptr_def
      assign_def destroy_def grab_ref_def lose_ref_def Let_def Py_XINCREF_def Py_XDECREF_def
      owner_def borrower_def split: option.splits)

theorem move_runs_copy_witness:
  "object_move (owner 0) rt0 = (owner 0, owner 0, Py_XINCREF (Some 0) rt0)
 \<and> refcnt (Py_XINCREF (Some 0) rt0) 0 = 2
 \<and> disown (owner 0) = (Some 0, borrower 0)
 \<and> destroy (borrower 0) rt0 = rt0"
  using move_runs_copy [of "owner 0" 0 rt0 "owner 1" None]
  by (simp add: owner_def borrower_def rt0_def Py_XINCREF_def Py_XDECREF_def destroy_def)

text \<open>The claim as written fails: after move-construction from an owning handle the
  source still owns, and the count has gone from 1 to 2 by one recorded increment.\<close>

theorem move_construct_counterexample:
  "(case object_move (owner 0) rt0 of
      (d, src, s') \<Rightarrow> owning src \<and> refcnt rt0 0 = 1 \<and> refcnt s' 0 = 2
        \<and> trace s' = [Incref 0 2])"
  by (simp add: object_move_def object_copy_def grab_ref_def Let_def Py_XINCREF_def
      Py_XDECREF_def owner_def rt0_def owning_def)

section \<open>Casts and constructors\<close>

text \<open>
  C6. Whenever the bridge's query leaves an error pending, the cast to \<^verbatim>\<open>int\<close>,
  \<^verbatim>\<open>float\<close>, \<^verbatim>\<open>double\<close> or \<^verbatim>\<open>complex\<close> throws, and the error that is pending
  afterwards is the cast's own \<open>TypeError\<close> with its fixed message: the runtime's
  error has been cleared and replaced. The casts to \<^verbatim>\<open>std::string\<close> and
  \<^verbatim>\<open>const char*\<close> of a handle on an object that is not text throw the same kind of
  error at once; the bridge is asked for no conversion and the runtime is otherwise
  as it was.
\<close>

theorem cast_failure_is_typed_error:
  "(PyErr_Occurred (snd (PyLong_AsLong B (obj h) s)) \<longrightarrow>
      fst (operator_int B h s) = Thrown
    \<and> err (snd (operator_int B h s)) = Some (TypeError, ''cannot convert value to integer''))
 \<and> (PyErr_Occurred (snd (PyFloat_AsDouble B (obj h) s)) \<longrightarrow>
      fst (operator_float narrow B h s) = Thrown
    \<and> err (snd (operator_float narrow B h s))
        = Some (TypeError, ''cannot convert value to float'')
    \<and> fst (operator_double B h s) = Thrown
    \<and> err (snd (operator_double B h s))
        = Some (TypeError, ''cannot convert value to double''))
 \<and> (obj h = Some a
      \<and> PyErr_Occurred (snd (PyComplex_ImagAsDouble B a (snd (PyComplex_RealAsDouble B a s)))) \<longrightarrow>
      fst (operator_complex B h s) = Thrown
    \<and> err (snd (operator_complex B h s))
        = Some (TypeError, ''cannot convert value to complex''))
 \<and> (obj h = Some a \<and> \<not> PyUnicode_Check B a s \<longrightarrow>
      operator_string B h s
        = (Thrown, PyErr_SetString TypeError ''cannot convert value to std::string'' s)
    \<and> operator_cstr B h s
        = (Thrown, PyErr_SetString TypeError ''cannot convert value to const char*'' s))"
  by (simp add: operator_int_def operator_float_def operator_double_def operator_complex_def
      operator_string_def operator_cstr_def fail_def PyErr_Occurred_def PyErr_Clear_def
      PyErr_SetString_def split_beta)

text \<open>On the reference host: the casts of the text \<open>a\<close> to a number, where the host
  raises its own \<open>TypeError\<close>, and the casts of the integer 2 to a string.\<close>

theorem cast_failure_is_typed_error_witness:
  "err (snd (host_AsLong (Some 2) rt0)) = Some (TypeError, ''an integer is required'')
 \<and> fst (operator_int host0 (owner 2) rt0) = Thrown
 \<and> err (snd (operator_int host0 (owner 2) rt0))
     = Some (TypeError, ''cannot convert value to integer'')
 \<and> fst (operator_float ucast host0 (owner 2) rt0) = Thrown
 \<and> fst (operator_double host0 (owner 2) rt0) = Thrown
 \<and> fst (operator_complex host0 (owner 2) rt0) = Thrown
 \<and> fst (operator_string host0 (owner 0) rt0) = Thrown
 \<and> err (snd (operator_string host0 (owner 0) rt0))
     = Some (TypeError, ''cannot convert value to std::string'')
 \<and> fst (operator_cstr host0 (owner 0) rt0) = Thrown"
  using cast_failure_is_typed_error [of host0 "owner 2" rt0 ucast 2]
    cast_failure_is_typed_error [of host0 "owner 0" rt0 ucast 0]
  by (simp add: host0_def host_def host_AsLong_def host_AsDouble_def host_RealAsDouble_def
      host_ImagAsDouble_def host_Unicode_Check_def owner_def rt0_def PyErr_Occurred_def
      PyErr_SetString_def)

subsection \<open>Round trips\<close>


































section \<open>Comparison\<close>

text \<open>
  C5 states that a failure of the rich-comparison primitive is raised. It is not: when
  \<^verbatim>\<open>PyObject_RichCompareBool\<close> answers \<open>-1\<close>, each of the six operators returns
  \<^verbatim>\<open>true\<close> and hands back the runtime as the primitive left it, error included.
  The sibling members \<^verbatim>\<open>hash\<close>, \<^verbatim>\<open>size\<close> and \<^verbatim>\<open>set_item\<close> test for \<open>-1\<close> and
  throw.
\<close>

theorem comparison_failure_returns_true:
  "(fst (PyObject_RichCompareBool B (obj h) (obj other) Py_EQ s) = - 1 \<longrightarrow>
      operator_eq B h other s
        = (Returned True, snd (PyObject_RichCompareBool B (obj h) (obj other) Py_EQ s)))
 \<and> (fst (PyObject_RichCompareBool B (obj h) (obj other) Py_NE s) = - 1 \<longrightarrow>
      operator_ne B h other s
        = (Returned True, snd (PyObject_RichCompareBool B (obj h) (obj other) Py_NE s)))
 \<and> (fst (PyObject_RichCompareBool B (obj h) (obj other) Py_LT s) = - 1 \<longrightarrow>
      operator_lt B h other s
        = (Returned True, snd (PyObject_RichCompareBool B (obj h) (obj other) Py_LT s)))
 \<and> (fst (PyObject_RichCompareBool B (obj h) (obj other) Py_GT s) = - 1 \<longrightarrow>
      operator_gt B h other s
        = (Returned True, snd (PyObject_RichCompareBool B (obj h) (obj other) Py_GT s)))
 \<and> (fst (PyObject_RichCompareBool B (obj h) (obj other) Py_LE s) = - 1 \<longrightarrow>
      operator_le B h other s
        = (Returned True, snd (PyObject_RichCompareBool B (obj h) (obj other) Py_LE s)))
 \<and> (fst (PyObject_RichCompareBool B (obj h) (obj other) Py_GE s) = - 1 \<longrightarrow>
      operator_ge B h other s
        = (Returned True, snd (PyObject_RichCompareBool B (obj h) (obj other) Py_GE s)))"
  by (simp add: operator_eq_def operator_ne_def operator_lt_def operator_gt_def
      operator_le_def operator_ge_def split_beta)

text \<open>On the reference host, the integer 2 compared with the text \<open>a\<close>: the host
  raises \<open>TypeError\<close>, the operator returns \<^verbatim>\<open>true\<close> and the error stays pending.\<close>

theorem comparison_failure_returns_true_witness:
  "heap rt0 0 = Some (PyLongV 2) \<and> heap rt0 2 = Some (PyUnicodeV ''a'')
 \<and> operator_lt host0 (owner 0) (owner 2) rt0
     = (Returned True, PyErr_SetString TypeError ''not supported between instances'' rt0)
 \<and> operator_ge host0 (owner 0) (owner 2) rt0
     = (Returned True, PyErr_SetString TypeError ''not supported between instances'' rt0)"
  using comparison_failure_returns_true [of host0 "owner 0" "owner 2" rt0]
  by (simp add: host0_def host_def host_RichCompareBool_def owner_def rt0_def)

text \<open>
  C7, as the code has it. With \<open>ob\<close> the temporary built from the argument, \<open>g\<close> the
  primitive's answer to greater-than and \<open>l\<close> its answer to less-than, \<^verbatim>\<open>cmp\<close>
  returns \<open>g - l\<close> and releases the temporary.
  When both answers are 0 or 1 the result is \<open>-1\<close>, 0 or 1. With answers among
  \<open>-1\<close>, 0 and 1 the result leaves that range exactly when one comparison answered 1
  and the other failed with \<open>-1\<close>.
\<close>

theorem cmp_greater_minus_less:
  assumes "construct B other s = (ob, s1)"
    and "PyObject_RichCompareBool B (obj h) (obj ob) Py_GT s1 = (g, s2)"
    and "PyObject_RichCompareBool B (obj h) (obj ob) Py_LT s2 = (l, s3)"
  shows "cmp B h other s = (Returned (g - l), destroy ob s3)
       \<and> (g \<in> {0, 1} \<and> l \<in> {0, 1} \<longrightarrow> g - l \<in> {- 1, 0, 1})
       \<and> (g \<in> {- 1, 0, 1} \<and> l \<in> {- 1, 0, 1} \<longrightarrow>
            (g - l \<notin> {- 1, 0, 1}) = (g = 1 \<and> l = - 1 \<or> g = - 1 \<and> l = 1))"
proof (intro conjI)
  show "cmp B h other s = (Returned (g - l), destroy ob s3)"
    by (simp add: cmp_def assms)
  show "g \<in> {0, 1} \<and> l \<in> {0, 1} \<longrightarrow> g - l \<in> {- 1, 0, 1}"
    by auto
  show "g \<in> {- 1, 0, 1} \<and> l \<in> {- 1, 0, 1} \<longrightarrow>
          (g - l \<notin> {- 1, 0, 1}) = (g = 1 \<and> l = - 1 \<or> g = - 1 \<and> l = 1)"
  proof
    assume "g \<in> {- 1, 0, 1} \<and> l \<in> {- 1, 0, 1}"
    then have "g = - 1 \<or> g = 0 \<or> g = 1" and "l = - 1 \<or> l = 0 \<or> l = 1"
      by simp_all
    then show "(g - l \<notin> {- 1, 0, 1}) = (g = 1 \<and> l = - 1 \<or> g = - 1 \<and> l = 1)"
      by (elim disjE) simp_all
  qed
qed

lemma lopsided_simps:
  "PyObject_RichCompareBool lopsided_host =
     (\<lambda>p q opr s. if opr = Py_GT then (1, s)
                   else (- 1, PyErr_SetString TypeError ''not supported'' s))"
  "PyLong_FromLong lopsided_host = host_FromLong"
  by (simp_all add: lopsided_host_def host0_def host_def)

lemma host0_simps:
  "PyObject_RichCompareBool host0 = host_RichCompareBool"
  "PyLong_FromLong host0 = host_FromLong"
  by (simp_all add: host0_def host_def)

text \<open>On the reference host 2 against 1 gives 1, 1 against 2 gives \<open>-1\<close> and 1
  against 1 gives 0; on the host whose objects are greater than everything and raise
  on less-than, the result is 2.\<close>

theorem cmp_greater_minus_less_witness:
  "fst (cmp host0 (owner 0) (NInt 1) rt0) = Returned 1
 \<and> fst (cmp host0 (owner 1) (NInt 2) rt0) = Returned (- 1)
 \<and> fst (cmp host0 (owner 1) (NInt 1) rt0) = Returned 0
 \<and> fst (cmp lopsided_host (owner 0) (NInt 1) rt0) = Returned 2"
proof -
  note ev = host0_simps lopsided_simps object_int_def host_FromLong_def host_alloc_def
    host_RichCompareBool_def owner_def rt0_def split_beta
  have "fst (cmp host0 (owner 0) (NInt 1) rt0) = Returned 1"
    using cmp_greater_minus_less [of host0 "NInt 1" rt0 _ _ "owner 0", OF prod.collapse [symmetric]
        prod.collapse [symmetric] prod.collapse [symmetric]]
    by (simp add: ev)
  moreover have "fst (cmp host0 (owner 1) (NInt 2) rt0) = Returned (- 1)"
    using cmp_greater_minus_less [of host0 "NInt 2" rt0 _ _ "owner 1", OF prod.collapse [symmetric]
        prod.collapse [symmetric] prod.collapse [symmetric]]
    by (simp add: ev)
  moreover have "fst (cmp host0 (owner 1) (NInt 1) rt0) = Returned 0"
    using cmp_greater_minus_less [of host0 "NInt 1" rt0 _ _ "owner 1", OF prod.collapse [symmetric]
        prod.collapse [symmetric] prod.collapse [symmetric]]
    by (simp add: ev)
  moreover have "fst (cmp lopsided_host (owner 0) (NInt 1) rt0) = Returned 2"
    using cmp_greater_minus_less [of lopsided_host "NInt 1" rt0 _ _ "owner 0",
        OF prod.collapse [symmetric] prod.collapse [symmetric] prod.collapse [symmetric]]
    by (simp add: ev)
  ultimately show ?thesis by simp
qed

text \<open>The claim as written has the subtraction the other way round. For 2 against 1
  the primitive answers 1 to greater-than and 0 to less-than: \<^verbatim>\<open>cmp\<close> returns 1,
  while the less-than answer minus the greater-than answer is \<open>-1\<close>.\<close>

theorem cmp_subtraction_counterexample:
  "fst (cmp host0 (owner 0) (NInt 1) rt0) = Returned 1
 \<and> (case construct host0 (NInt 1) rt0 of (ob, s1) \<Rightarrow>
      fst (host_RichCompareBool (Some 0) (obj ob) Py_LT s1)
        - fst (host_RichCompareBool (Some 0) (obj ob) Py_GT s1) = - 1)"
  by (simp add: cmp_def object_int_def host0_def host_def host_FromLong_def host_alloc_def
      host_RichCompareBool_def owner_def rt0_def split_beta)

section \<open>Item access\<close>

lemma err_XINCREF: "err (Py_XINCREF p s) = err s"
  by (simp add: Py_XINCREF_def split: option.splits)

lemma err_XDECREF: "err (Py_XDECREF p s) = err s"
  by (simp add: Py_XDECREF_def split: option.splits)

lemma err_lose_ref: "err (lose_ref p s) = err s"
  by (simp add: lose_ref_def split: option.splits)

lemma err_grab_ref: "err (snd (grab_ref h p s)) = err s"
  by (simp add: grab_ref_def Let_def err_XINCREF err_XDECREF)

lemma fst_grab_ref: "fst (grab_ref h p s) = \<lparr>obj = p, own = p\<rparr>"
  by (cases h) (simp add: grab_ref_def Let_def)

lemma fst_index_return:
  "fst (index_return h k rslt s) =
     Returned \<lparr>kr_base = \<lparr>obj = obj rslt, own = obj rslt\<rparr>, kr_parent = h,
               kr_key = \<lparr>obj = obj k, own = obj k\<rparr>\<rparr>"
  by (simp add: index_return_def keyed_ref_new_def object_copy_def split_beta Let_def
      fst_grab_ref)

lemma err_index_return: "err (snd (index_return h k rslt s)) = err s"
  by (simp add: index_return_def keyed_ref_new_def object_copy_def destroy_def split_beta
      Let_def err_grab_ref err_XDECREF)

lemma matches_err_cong:
  "err s = err s' \<Longrightarrow> PyErr_ExceptionMatches s k = PyErr_ExceptionMatches s' k"
  by (simp add: PyErr_ExceptionMatches_def)

lemma operator_index_unfold:
  "operator_index B h key s =
     (case construct B key s of (k, s1) \<Rightarrow>
       (case PyObject_GetItem B (obj h) (obj k) s1 of (p, s2) \<Rightarrow>
          (let s4 = lose_ref p (snd (object_ptr p s2)); rslt = \<lparr>obj = p, own = p\<rparr>
           in if p = None
              then (if PyErr_ExceptionMatches s2 KeyError
                    then index_return h k rslt (PyErr_Clear s4)
                    else if PyErr_ExceptionMatches s2 IndexError
                    then (Thrown, destroy k (destroy rslt s4))
                    else index_return h k rslt s4)
              else index_return h k rslt s4)))"
  by (simp add: operator_index_def split_beta Let_def object_ptr_def fst_grab_ref
      matches_err_cong [OF trans [OF err_lose_ref err_grab_ref]])

text \<open>
  C3, as the code has it. Let the fetch return null. If the pending error matches
  \<open>KeyError\<close>, \<^verbatim>\<open>operator[]\<close> returns a keyed reference with a null referent, on
  the handle as parent and the converted key, and no error is pending afterwards.
  If it matches \<open>IndexError\<close> and not \<open>KeyError\<close>, \<^verbatim>\<open>operator[]\<close> throws and the
  error stays as the fetch left it. In every other case \<^verbatim>\<open>operator[]\<close> does not
  throw: it returns the same keyed reference with a null referent, and the error
  indicator is as the fetch left it.
\<close>

theorem operator_index_fetch_failure:
  "(case construct B key s of (k, s1) \<Rightarrow>
     (case PyObject_GetItem B (obj h) (obj k) s1 of (p, s2) \<Rightarrow>
        p = None \<longrightarrow>
          (PyErr_ExceptionMatches s2 KeyError \<longrightarrow>
             fst (operator_index B h key s) =
               Returned \<lparr>kr_base = object_nullptr, kr_parent = h,
                         kr_key = \<lparr>obj = obj k, own = obj k\<rparr>\<rparr>
           \<and> err (snd (operator_index B h key s)) = None)
        \<and> (\<not> PyErr_ExceptionMatches s2 KeyError \<and> PyErr_ExceptionMatches s2 IndexError \<longrightarrow>
             fst (operator_index B h key s) = Thrown
           \<and> err (snd (operator_index B h key s)) = err s2)
        \<and> (\<not> PyErr_ExceptionMatches s2 KeyError \<and> \<not> PyErr_ExceptionMatches s2 IndexError \<longrightarrow>
             fst (operator_index B h key s) =
               Returned \<lparr>kr_base = object_nullptr, kr_parent = h,
                         kr_key = \<lparr>obj = obj k, own = obj k\<rparr>\<rparr>
           \<and> err (snd (operator_index B h key s)) = err s2)))"
  by (simp add: operator_index_unfold split_beta Let_def fst_index_return err_index_return
      object_nullptr_def PyErr_Clear_def err_lose_ref err_grab_ref object_ptr_def destroy_def
      err_XDECREF)

text \<open>On the reference host: a key missing from the empty dictionary, the index 7 on
  a list of two items, and a text key on that list.\<close>

theorem operator_index_fetch_failure_witness:
  "fst (operator_index host0 (owner 3) (NInt 1) rt0)
     = Returned \<lparr>kr_base = object_nullptr, kr_parent = owner 3, kr_key = owner 100\<rparr>
 \<and> err (snd (operator_index host0 (owner 3) (NInt 1) rt0)) = None
 \<and> fst (operator_index host0 (owner 4) (NInt 7) rt0) = Thrown
 \<and> err (snd (operator_index host0 (owner 4) (NInt 7) rt0))
     = Some (IndexError, ''list index out of range'')
 \<and> fst (operator_index host0 (owner 4) (NCStr ''a'') rt0)
     = Returned \<lparr>kr_base = object_nullptr, kr_parent = owner 4, kr_key = owner 100\<rparr>"
  using operator_index_fetch_failure [where B = host0 and h = "owner 3" and key = "NInt 1"
      and s = rt0]
    operator_index_fetch_failure [where B = host0 and h = "owner 4" and key = "NInt 7"
      and s = rt0]
    operator_index_fetch_failure [where B = host0 and h = "owner 4" and key = "NCStr ''a''"
      and s = rt0]
  by (simp add: object_int_def object_cstr_def host0_def host_def host_FromLong_def
      host_FromString_def host_alloc_def host_GetItem_def host_hashable_def rt0_def owner_def
      c_str_def ascii_only_def PyErr_ExceptionMatches_def PyErr_SetString_def)

text \<open>The claim as written fails for a failure that is neither a missing key nor an
  index out of range: a list indexed by a text raises \<open>TypeError\<close> in the host, and
  \<^verbatim>\<open>operator[]\<close> returns a keyed reference instead of throwing.\<close>

theorem operator_index_type_error_counterexample:
  "heap rt0 4 = Some (PyListV [0, 1])
 \<and> fst (host_GetItem (Some 4) (Some 2) rt0) = None
 \<and> err (snd (host_GetItem (Some 4) (Some 2) rt0))
     = Some (TypeError, ''list indices must be integers'')
 \<and> fst (operator_index host0 (owner 4) (NObject (owner 2)) rt0)
     = Returned \<lparr>kr_base = object_nullptr, kr_parent = owner 4, kr_key = owner 2\<rparr>
 \<and> fst (operator_index host0 (owner 4) (NObject (owner 2)) rt0) \<noteq> Thrown"
  by (simp add: operator_index_unfold fst_index_return host0_def host_def host_GetItem_def
      rt0_def owner_def object_nullptr_def object_copy_def grab_ref_def Let_def Py_XINCREF_def
      Py_XDECREF_def PyErr_ExceptionMatches_def PyErr_SetString_def)

text \<open>
  C4. Assignment through a keyed reference first runs the retain-assignment of its
  base handle, which becomes an owner of the new referent, and then calls
  \<^verbatim>\<open>PyObject_SetItem\<close> on the parent with the stored key, in the runtime the
  retain-assignment left behind: its increment and decrement are on record before the
  primitive runs. When the write-back answers \<open>-1\<close> the assignment
  throws, and the base handle keeps the new referent. A native value is converted to
  a temporary handle first, assigned in the same order, and the temporary is destroyed
  on both paths.
\<close>

theorem keyed_ref_assign_then_write_back:
  "(case grab_ref (kr_base r) (obj other) s of (b, s1) \<Rightarrow>
     (case PyObject_SetItem B (obj (kr_parent r)) (obj (kr_key r)) (obj other) s1 of
        (rc, s2) \<Rightarrow>
          keyed_ref_assign B r other s
            = (if rc = - 1 then Thrown else Returned (), r\<lparr>kr_base := b\<rparr>, s2)
        \<and> b = \<lparr>obj = obj other, own = obj other\<rparr>
        \<and> trace s1 =
            trace s @ (case obj other of None \<Rightarrow> [] | Some n \<Rightarrow> [Incref n (refcnt s n + 1)])
              @ (case own (kr_base r) of None \<Rightarrow> []
                 | Some c \<Rightarrow> [Decref c (refcnt (Py_XINCREF (obj other) s) c - 1)])
        \<and> (rc = - 1 \<longrightarrow>
             fst (keyed_ref_assign B r other s) = Thrown
           \<and> kr_base (fst (snd (keyed_ref_assign B r other s)))
               = \<lparr>obj = obj other, own = obj other\<rparr>)))
 \<and> (case construct B v s of (tmp, s0) \<Rightarrow>
      (case grab_ref (kr_base r) (obj tmp) s0 of (b, s1) \<Rightarrow>
        (case PyObject_SetItem B (obj (kr_parent r)) (obj (kr_key r)) (obj tmp) s1 of
           (rc, s2) \<Rightarrow>
             keyed_ref_assign_value B r v s
               = (if rc = - 1 then Thrown else Returned (), r\<lparr>kr_base := b\<rparr>,
                  destroy tmp s2))))"
  using grab_ref_trace [of "kr_base r" "obj other" s]
  by (simp add: keyed_ref_assign_def keyed_ref_assign_value_def set_item_def split_beta
      Let_def fst_grab_ref)

text \<open>On the reference host: a write-back into the integer 7, which does not support
  item assignment, throws after the base handle has taken the new referent; a
  write-back into the empty dictionary returns.\<close>

theorem keyed_ref_assign_then_write_back_witness:
  "fst (keyed_ref_assign host0
          \<lparr>kr_base = object_nullptr, kr_parent = owner 6, kr_key = owner 0\<rparr> (owner 1) rt0)
     = Thrown
 \<and> kr_base (fst (snd (keyed_ref_assign host0
          \<lparr>kr_base = object_nullptr, kr_parent = owner 6, kr_key = owner 0\<rparr> (owner 1) rt0)))
     = owner 1
 \<and> trace (snd (snd (keyed_ref_assign host0
          \<lparr>kr_base = object_nullptr, kr_parent = owner 6, kr_key = owner 0\<rparr> (owner 1) rt0)))
     = [Incref 1 2]
 \<and> fst (keyed_ref_assign host0
          \<lparr>kr_base = object_nullptr, kr_parent = owner 3, kr_key = owner 0\<rparr> (owner 1) rt0)
     = Returned ()"
  using keyed_ref_assign_then_write_back [where B = host0 and other = "owner 1" and s = rt0
      and r = "\<lparr>kr_base = object_nullptr, kr_parent = owner 6, kr_key = owner 0\<rparr>"
      and v = "NInt 1"]
    keyed_ref_assign_then_write_back [where B = host0 and other = "owner 1" and s = rt0
      and r = "\<lparr>kr_base = object_nullptr, kr_parent = owner 3, kr_key = owner 0\<rparr>"
      and v = "NInt 1"]
  by (simp add: keyed_ref_assign_def keyed_ref_assign_value_def set_item_def object_int_def
      host0_def host_def host_FromLong_def host_alloc_def host_SetItem_def host_hashable_def
      rt0_def owner_def object_nullptr_def split_beta grab_ref_def destroy_def Let_def
      Py_XINCREF_def Py_XDECREF_def PyErr_SetString_def)

section \<open>Null handles\<close>

lemma null_handle_copy:
  "is_null h \<Longrightarrow> handle_ok h \<Longrightarrow> object_copy h s = (object_nullptr, s) \<and> destroy h s = s"
  by (simp add: is_null_def handle_ok_def object_nullptr_def object_copy_def destroy_def
      grab_ref_def Let_def Py_XINCREF_def Py_XDECREF_def)

lemma swallowed_fetch_reference:
  "construct B key s = (k, s1) \<Longrightarrow> PyObject_GetItem B (obj par) (obj k) s1 = (None, s2) \<Longrightarrow>
   PyErr_ExceptionMatches s2 KeyError \<Longrightarrow>
   fst (operator_index B par key s) =
     Returned \<lparr>kr_base = object_nullptr, kr_parent = par,
               kr_key = \<lparr>obj = obj k, own = obj k\<rparr>\<rparr>"
  by (simp add: operator_index_unfold Let_def fst_index_return object_nullptr_def)

text \<open>
  C10, as the code has it. For a handle whose referent is null: copy construction from
  it returns a null handle and leaves the runtime as it is; its destruction leaves the
  runtime as it is; copy assignment from it to a handle \<open>d\<close> makes \<open>d\<close> null and does
  to the runtime what destroying \<open>d\<close> does, which is nothing when \<open>d\<close> is borrowing;
  copy assignment to it from \<open>x\<close> is the increment of \<open>x\<close>'s referent and no
  decrement. \<^verbatim>\<open>is_null\<close> holds exactly when the referent is null, and never for a
  handle on an object, whatever the object is.

  The keyed reference that \<^verbatim>\<open>operator[]\<close> returns when the fetch found no key and the
  error was swallowed has a null referent that owns nothing, and an owning copy of
  the key. For every keyed reference \<open>r\<close> with such a referent: copying \<open>r\<close> gives a
  null referent again and increments the key's referent, nothing else; destroying
  \<open>r\<close> is the destruction of its key copy, one decrement; assigning \<open>x\<close> through \<open>r\<close>
  increments \<open>x\<close>'s referent, decrements nothing, and then writes back through the
  parent, throwing when the write-back answers \<open>-1\<close>; assigning \<open>r\<close> through a keyed
  reference \<open>q\<close> releases what \<open>q\<close> owned and writes a null pointer back through
  \<open>q\<close>'s parent.
\<close>

theorem null_handle_operations:
  "(is_null h \<and> handle_ok h \<longrightarrow>
       object_copy h s = (object_nullptr, s)
     \<and> destroy h s = s
     \<and> snd (assign d h s) = destroy d s
     \<and> is_null (fst (assign d h s))
     \<and> (borrowing d \<longrightarrow> snd (assign d h s) = s)
     \<and> snd (assign h x s) = Py_XINCREF (obj x) s)
 \<and> is_null h = (obj h = None)
 \<and> (obj h = Some a \<longrightarrow> \<not> is_null h)
 \<and> (case construct B key s of (k, s1) \<Rightarrow>
      (case PyObject_GetItem B (obj par) (obj k) s1 of (p, s2) \<Rightarrow>
         p = None \<and> PyErr_ExceptionMatches s2 KeyError \<longrightarrow>
           (case fst (operator_index B par key s) of
              Returned r' \<Rightarrow>
                is_null (kr_base r') \<and> handle_ok (kr_base r') \<and> borrowing (kr_base r')
              \<and> kr_parent r' = par \<and> kr_key r' = \<lparr>obj = obj k, own = obj k\<rparr>
            | Thrown \<Rightarrow> False
            | Undefined \<Rightarrow> False)))
 \<and> (is_null (kr_base r) \<and> handle_ok (kr_base r) \<longrightarrow>
       keyed_ref_copy r s =
         (\<lparr>kr_base = object_nullptr, kr_parent = kr_parent r,
           kr_key = \<lparr>obj = obj (kr_key r), own = obj (kr_key r)\<rparr>\<rparr>,
          Py_XINCREF (obj (kr_key r)) s)
     \<and> keyed_ref_destroy r s = destroy (kr_key r) s
     \<and> (case PyObject_SetItem B (obj (kr_parent r)) (obj (kr_key r)) (obj x)
               (Py_XINCREF (obj x) s) of
          (rc, s2) \<Rightarrow>
            keyed_ref_assign B r x s =
              (if rc = - 1 then Thrown else Returned (),
               r\<lparr>kr_base := \<lparr>obj = obj x, own = obj x\<rparr>\<rparr>, s2))
     \<and> (case PyObject_SetItem B (obj (kr_parent q)) (obj (kr_key q)) None
               (destroy (kr_base q) s) of
          (rc, s2) \<Rightarrow>
            keyed_ref_assign_ref B q r s =
              (if rc = - 1 then Thrown else Returned (),
               q\<lparr>kr_base := object_nullptr\<rparr>, s2)))"
proof (intro conjI impI)
  assume nh: "is_null h \<and> handle_ok h"
  show "object_copy h s = (object_nullptr, s)"
    using nh by (simp add: null_handle_copy)
  show "destroy h s = s"
    using nh by (simp add: null_handle_copy)
  show "snd (assign d h s) = destroy d s"
    using nh by (simp add: is_null_def assign_def destroy_def grab_ref_def Let_def
        Py_XINCREF_def)
  show "is_null (fst (assign d h s))"
    using nh by (simp add: is_null_def assign_def grab_ref_def Let_def)
  show "snd (assign d h s) = s" if "borrowing d"
    using nh that by (simp add: is_null_def borrowing_def assign_def grab_ref_def Let_def
        Py_XINCREF_def Py_XDECREF_def)
  show "snd (assign h x s) = Py_XINCREF (obj x) s"
    using nh by (auto simp: is_null_def handle_ok_def assign_def grab_ref_def Let_def
        Py_XDECREF_def)
next
  show "is_null h = (obj h = None)"
    by (simp add: is_null_def)
next
  show "\<not> is_null h" if "obj h = Some a"
    using that by (simp add: is_null_def)
next
  show "case construct B key s of (k, s1) \<Rightarrow>
      (case PyObject_GetItem B (obj par) (obj k) s1 of (p, s2) \<Rightarrow>
         p = None \<and> PyErr_ExceptionMatches s2 KeyError \<longrightarrow>
           (case fst (operator_index B par key s) of
              Returned r' \<Rightarrow>
                is_null (kr_base r') \<and> handle_ok (kr_base r') \<and> borrowing (kr_base r')
              \<and> kr_parent r' = par \<and> kr_key r' = \<lparr>obj = obj k, own = obj k\<rparr>
            | Thrown \<Rightarrow> False
            | Undefined \<Rightarrow> False))"
  proof (cases "construct B key s")
    case c: (Pair k s1)
    show ?thesis
    proof (cases "PyObject_GetItem B (obj par) (obj k) s1")
      case g: (Pair p s2)
      show ?thesis
        using swallowed_fetch_reference [of B key s k s1 par s2]
        by (simp add: c g is_null_def handle_ok_def borrowing_def object_nullptr_def)
    qed
  qed
next
  assume nr: "is_null (kr_base r) \<and> handle_ok (kr_base r)"
  have base: "obj (kr_base r) = None" "own (kr_base r) = None"
    using nr by (auto simp: is_null_def handle_ok_def)
  show "keyed_ref_copy r s =
         (\<lparr>kr_base = object_nullptr, kr_parent = kr_parent r,
           kr_key = \<lparr>obj = obj (kr_key r), own = obj (kr_key r)\<rparr>\<rparr>,
          Py_XINCREF (obj (kr_key r)) s)"
    by (simp add: keyed_ref_copy_def object_copy_def grab_ref_def Let_def base
        object_nullptr_def Py_XINCREF_def Py_XDECREF_def)
  show "keyed_ref_destroy r s = destroy (kr_key r) s"
    by (simp add: keyed_ref_destroy_def destroy_def base Py_XDECREF_def)
  show "case PyObject_SetItem B (obj (kr_parent r)) (obj (kr_key r)) (obj x)
               (Py_XINCREF (obj x) s) of
          (rc, s2) \<Rightarrow>
            keyed_ref_assign B r x s =
              (if rc = - 1 then Thrown else Returned (),
               r\<lparr>kr_base := \<lparr>obj = obj x, own = obj x\<rparr>\<rparr>, s2)"
    using base by (cases "kr_base r")
      (simp add: keyed_ref_assign_def set_item_def grab_ref_def Let_def Py_XDECREF_def
        split_beta)
  show "case PyObject_SetItem B (obj (kr_parent q)) (obj (kr_key q)) None
               (destroy (kr_base q) s) of
          (rc, s2) \<Rightarrow>
            keyed_ref_assign_ref B q r s =
              (if rc = - 1 then Thrown else Returned (),
               q\<lparr>kr_base := object_nullptr\<rparr>, s2)"
  proof -
    have oc: "object_copy (kr_base r) s = (object_nullptr, s)"
      using nr by (simp add: null_handle_copy)
    have nul: "obj object_nullptr = None" "destroy object_nullptr = (\<lambda>t. t)"
      by (simp_all add: object_nullptr_def destroy_def Py_XDECREF_def fun_eq_iff)
    have upd: "(kr_base q)\<lparr>own := None, obj := None\<rparr> = object_nullptr"
      by (cases "kr_base q") (simp add: object_nullptr_def)
    have ga: "grab_ref (kr_base q) None s = (object_nullptr, destroy (kr_base q) s)"
      by (simp add: grab_ref_def Let_def Py_XINCREF_def destroy_def upd)
    show ?thesis
      by (simp add: keyed_ref_assign_ref_def keyed_ref_assign_def set_item_def oc nul ga
          split_beta)
  qed
qed

text \<open>On the reference host: the null handle, a handle on the none object, the
  keyed reference that \<^verbatim>\<open>operator[]\<close> returns for the key 1 missing from the empty
  dictionary, and the two keyed references on that dictionary.\<close>

theorem null_handle_operations_witness:
  "object_copy object_nullptr rt0 = (object_nullptr, rt0)
 \<and> destroy object_nullptr rt0 = rt0
 \<and> snd (assign (borrower 0) object_nullptr rt0) = rt0
 \<and> is_null object_nullptr
 \<and> heap rt0 5 = Some PyNoneV \<and> \<not> is_null (owner 5)
 \<and> (case fst (operator_index host0 (owner 3) (NInt 1) rt0) of
      Returned r' \<Rightarrow> is_null (kr_base r') \<and> kr_key r' = owner 100
    | Thrown \<Rightarrow> False
    | Undefined \<Rightarrow> False)
 \<and> is_null (kr_base missing_ref)
 \<and> refcnt (snd (keyed_ref_copy missing_ref rt0)) 0 = 2
 \<and> refcnt (keyed_ref_destroy missing_ref rt0) 0 = 0
 \<and> fst (keyed_ref_assign host0 missing_ref (owner 6) rt0) = Returned ()
 \<and> fst (keyed_ref_assign_ref host0 present_ref missing_ref rt0) = Thrown"
proof -
  note t1 = null_handle_operations [where h = object_nullptr and s = rt0 and d = "borrower 0"
      and x = "owner 6" and a = 0 and B = host0 and key = "NInt 1" and par = "owner 3"
      and r = missing_ref and q = present_ref]
  note t2 = null_handle_operations [where h = "owner 5" and s = rt0 and d = "borrower 0"
      and x = "owner 6" and a = 5 and B = host0 and key = "NInt 1" and par = "owner 3"
      and r = missing_ref and q = present_ref]
  have n: "is_null object_nullptr \<and> handle_ok object_nullptr" "borrowing (borrower 0)"
    "is_null (kr_base missing_ref) \<and> handle_ok (kr_base missing_ref)"
    by (simp_all add: is_null_def handle_ok_def object_nullptr_def borrowing_def borrower_def
        missing_ref_def)
  have a: "object_copy object_nullptr rt0 = (object_nullptr, rt0)
      \<and> destroy object_nullptr rt0 = rt0
      \<and> snd (assign (borrower 0) object_nullptr rt0) = rt0
      \<and> is_null object_nullptr"
    using t1 n by (simp add: destroy_def borrower_def Py_XDECREF_def)
  have b: "heap rt0 5 = Some PyNoneV \<and> \<not> is_null (owner 5)"
    using t2 by (simp add: owner_def rt0_def)
  have c: "obj (fst (construct host0 (NInt 1) rt0)) = Some 100"
    by (simp add: object_int_def host0_def host_def host_FromLong_def host_alloc_def rt0_def
        object_ptr_def grab_ref_def Let_def Py_XINCREF_def Py_XDECREF_def split_beta)
  have g: "fst (PyObject_GetItem host0 (obj (owner 3)) (obj (fst (construct host0 (NInt 1) rt0)))
                 (snd (construct host0 (NInt 1) rt0))) = None
         \<and> PyErr_ExceptionMatches
             (snd (PyObject_GetItem host0 (obj (owner 3))
                     (obj (fst (construct host0 (NInt 1) rt0)))
                     (snd (construct host0 (NInt 1) rt0))))
             KeyError"
    by (simp add: object_int_def host0_def host_def host_FromLong_def host_alloc_def rt0_def
        object_ptr_def grab_ref_def Let_def Py_XINCREF_def Py_XDECREF_def split_beta
        host_GetItem_def host_hashable_def PyErr_ExceptionMatches_def PyErr_SetString_def
        owner_def)
  note t1 [THEN conjunct2, THEN conjunct2, THEN conjunct2, THEN conjunct1,
      unfolded split_beta, THEN mp, OF g]
  with c have d: "case fst (operator_index host0 (owner 3) (NInt 1) rt0) of
      Returned r' \<Rightarrow> is_null (kr_base r') \<and> kr_key r' = owner 100
    | Thrown \<Rightarrow> False
    | Undefined \<Rightarrow> False"
    by (simp add: owner_def split: outcome.splits)
  have e: "is_null (kr_base missing_ref)
     \<and> refcnt (snd (keyed_ref_copy missing_ref rt0)) 0 = 2
     \<and> refcnt (keyed_ref_destroy missing_ref rt0) 0 = 0"
    using t1 n by (simp add: missing_ref_def owner_def Py_XINCREF_def destroy_def
        Py_XDECREF_def rt0_def)
  have f: "fst (keyed_ref_assign host0 missing_ref (owner 6) rt0) = Returned ()"
    using t1 n by (simp add: missing_ref_def owner_def Py_XINCREF_def rt0_def host0_def
        host_def host_SetItem_def host_hashable_def split_beta)
  have h: "fst (keyed_ref_assign_ref host0 present_ref missing_ref rt0) = Thrown"
    using t1 n by (simp add: missing_ref_def present_ref_def owner_def destroy_def
        Py_XDECREF_def rt0_def host0_def host_def host_SetItem_def null_error_def split_beta)
  show ?thesis
    using a b d e f h by simp
qed

text \<open>
  The claim as written fails at these inputs, on the reference host:
  \<^item> copy assignment: assigning a null handle to a handle that owns an object of
    count 1 takes that count to 0;
  \<^item> the keyed reference that \<^verbatim>\<open>operator[]\<close> returns for the key 1 missing from the
    empty dictionary: its referent is null; the key object, at address 100, has
    count 1; copying the reference takes that count to 2, destroying the reference
    takes it to 0 and frees the object, and assigning a null handle through the
    reference throws.
\<close>

theorem null_assign_counterexample:
  "is_null object_nullptr \<and> refcnt rt0 0 = 1
 \<and> refcnt (snd (assign (owner 0) object_nullptr rt0)) 0 = 0
 \<and> (case operator_index host0 (owner 3) (NInt 1) rt0 of
      (Returned r, s1) \<Rightarrow>
        is_null (kr_base r) \<and> kr_key r = owner 100 \<and> refcnt s1 100 = 1
      \<and> refcnt (snd (keyed_ref_copy r s1)) 100 = 2
      \<and> refcnt (keyed_ref_destroy r s1) 100 = 0
      \<and> freed (keyed_ref_destroy r s1) = [100]
      \<and> fst (keyed_ref_assign host0 r object_nullptr s1) = Thrown
    | (Thrown, s1) \<Rightarrow> False
    | (Undefined, s1) \<Rightarrow> False)"
proof (intro conjI)
  show "is_null object_nullptr"
    by (simp add: is_null_def object_nullptr_def)
  show "refcnt rt0 0 = 1"
    by (simp add: rt0_def)
  show "refcnt (snd (assign (owner 0) object_nullptr rt0)) 0 = 0"
    by (simp add: object_nullptr_def assign_def grab_ref_def Let_def Py_XINCREF_def
        Py_XDECREF_def owner_def rt0_def)
  show "case operator_index host0 (owner 3) (NInt 1) rt0 of
      (Returned r, s1) \<Rightarrow>
        is_null (kr_base r) \<and> kr_key r = owner 100 \<and> refcnt s1 100 = 1
      \<and> refcnt (snd (keyed_ref_copy r s1)) 100 = 2
      \<and> refcnt (keyed_ref_destroy r s1) 100 = 0
      \<and> freed (keyed_ref_destroy r s1) = [100]
      \<and> fst (keyed_ref_assign host0 r object_nullptr s1) = Thrown
    | (Thrown, s1) \<Rightarrow> False
    | (Undefined, s1) \<Rightarrow> False"
    by (simp add: operator_index_def index_return_def keyed_ref_new_def keyed_ref_copy_def
        keyed_ref_destroy_def keyed_ref_assign_def set_item_def object_int_def object_ptr_def
        object_copy_def lose_ref_def grab_ref_def destroy_def Let_def split_beta
        Py_XINCREF_def Py_XDECREF_def is_null_def object_nullptr_def owner_def rt0_def
        host0_def host_def host_FromLong_def host_alloc_def host_GetItem_def host_SetItem_def
        host_hashable_def PyErr_ExceptionMatches_def PyErr_SetString_def PyErr_Clear_def
        null_error_def)
qed

end
